theory Spec2Isabelle
  imports Complex_Main "HOL-Library.Char_ord" "HOL-Library.List_Lexorder"
begin

section \<open>Python values and exceptions\<close>

text \<open>
  The values that the untyped bags of \<^verbatim>\<open>shared/types.py\<close> (\<^verbatim>\<open>Dict[str, Any]\<close>) and the
  domain dictionary of \<^verbatim>\<open>scripts/domain_assembler.py\<close> hold. A \<^verbatim>\<open>dict\<close> is an association
  list in insertion order (Python keeps that order and \<^verbatim>\<open>yaml.dump\<close> is called with
  \<^verbatim>\<open>sort_keys=False\<close>), a \<^verbatim>\<open>float\<close> is a real number: the code stores and compares
  floats and never computes with them.
\<close>

datatype pyval =
    PNone
  | PBool bool
  | PInt int
  | PFloat real
  | PStr string
  | PList "pyval list"
  | PDict "(string \<times> pyval) list"

text \<open>The built-in exceptions that the modelled code and the library calls it makes can raise.\<close>

datatype error =
    KeyError
  | TypeError
  | NotImplementedError
  | FileExistsError
  | FileNotFoundError
  | NotADirectoryError
  | IsADirectoryError

text \<open>\<^verbatim>\<open>d[k]\<close> and \<^verbatim>\<open>len(x)\<close>, with the exceptions Python raises.\<close>

fun getitem :: "pyval \<Rightarrow> string \<Rightarrow> error + pyval" where
  "getitem (PDict kvs) k = (case map_of kvs k of None \<Rightarrow> Inl KeyError | Some v \<Rightarrow> Inr v)"
| "getitem _ k = Inl TypeError"

fun py_len :: "pyval \<Rightarrow> error + int" where
  "py_len (PList xs) = Inr (int (length xs))"
| "py_len (PDict kvs) = Inr (int (length kvs))"
| "py_len (PStr s) = Inr (int (length s))"
| "py_len _ = Inl TypeError"

section \<open>shared/types.py\<close>

text \<open>
  Each \<^verbatim>\<open>@dataclass\<close> is a record, and its generated \<^verbatim>\<open>__init__\<close> is the function
  \<open>X_init\<close>. An argument with a default is an \<open>option\<close>: \<open>None\<close> is the omitted argument.
  (For a field of type \<^verbatim>\<open>Optional[str] = None\<close> the omitted argument and an explicit
  \<^verbatim>\<open>None\<close> store the same value, so one \<open>option\<close> stands for both.) No class of the file
  defines \<^verbatim>\<open>__post_init__\<close> or any other method, so the generated \<^verbatim>\<open>__init__\<close> only
  assigns the fields; it has no \<^verbatim>\<open>raise\<close>.
\<close>

record SpatialContext =
  position :: "real \<times> real"
  orientation :: real
  zone :: "string option"

definition SpatialContext_init ::
  "real \<times> real \<Rightarrow> real \<Rightarrow> string option \<Rightarrow> error + SpatialContext" where
  "SpatialContext_init pos ori zn =
     Inr \<lparr>position = pos, orientation = ori, zone = zn\<rparr>"

record ActionContext =
  target_object :: "string option"
  progress :: real
  metadata :: "(string \<times> pyval) list"

definition ActionContext_init ::
  "string option \<Rightarrow> real option \<Rightarrow> (string \<times> pyval) list option \<Rightarrow> error + ActionContext" where
  "ActionContext_init tgt prog meta =
     Inr \<lparr>target_object = tgt,
          progress = (case prog of None \<Rightarrow> 0 | Some p \<Rightarrow> p),
          metadata = (case meta of None \<Rightarrow> [] | Some m \<Rightarrow> m)\<rparr>"

record Observation =
  timestamp :: real
  agent_id :: string
  detected_microaction :: string
  spatial_context :: SpatialContext
  action_context :: ActionContext
  confidence :: real

definition Observation_init ::
  "real \<Rightarrow> string \<Rightarrow> string \<Rightarrow> SpatialContext \<Rightarrow> ActionContext \<Rightarrow> real option
     \<Rightarrow> error + Observation" where
  "Observation_init ts aid micro sc ac conf =
     Inr \<lparr>timestamp = ts, agent_id = aid, detected_microaction = micro,
          spatial_context = sc, action_context = ac,
          confidence = (case conf of None \<Rightarrow> 1 | Some c \<Rightarrow> c)\<rparr>"

record BeliefState =
  timestamp :: real
  agent_id :: string
  distribution :: "(string \<times> real) list"
  most_likely :: string
  confidence :: real
  predicted_next_actions :: "(string \<times> string list) list"

definition BeliefState_init ::
  "real \<Rightarrow> string \<Rightarrow> (string \<times> real) list \<Rightarrow> string \<Rightarrow> real
     \<Rightarrow> (string \<times> string list) list option \<Rightarrow> error + BeliefState" where
  "BeliefState_init ts aid distr ml conf pna =
     Inr \<lparr>timestamp = ts, agent_id = aid, distribution = distr, most_likely = ml,
          confidence = conf,
          predicted_next_actions = (case pna of None \<Rightarrow> [] | Some m \<Rightarrow> m)\<rparr>"

datatype ActionType = NAVIGATE | PICK | PLACE | WAIT | HANDOVER

fun ActionType_value :: "ActionType \<Rightarrow> string" where
  "ActionType_value NAVIGATE = ''navigate''"
| "ActionType_value PICK = ''pick''"
| "ActionType_value PLACE = ''place''"
| "ActionType_value WAIT = ''wait''"
| "ActionType_value HANDOVER = ''handover''"

record AbstractAction =
  action_type :: ActionType
  parameters :: "(string \<times> pyval) list"
  estimated_path :: "(real \<times> real) list option"
  estimated_duration :: real
  spatial_constraints :: "(string \<times> pyval) list"
  temporal_constraints :: "(string \<times> pyval) list"

definition AbstractAction_init ::
  "ActionType \<Rightarrow> (string \<times> pyval) list \<Rightarrow> (real \<times> real) list option \<Rightarrow> real option
     \<Rightarrow> (string \<times> pyval) list option \<Rightarrow> (string \<times> pyval) list option
     \<Rightarrow> error + AbstractAction" where
  "AbstractAction_init ty ps path dur sc tc =
     Inr \<lparr>action_type = ty, parameters = ps, estimated_path = path,
          estimated_duration = (case dur of None \<Rightarrow> 0 | Some d \<Rightarrow> d),
          spatial_constraints = (case sc of None \<Rightarrow> [] | Some m \<Rightarrow> m),
          temporal_constraints = (case tc of None \<Rightarrow> [] | Some m \<Rightarrow> m)\<rparr>"

section \<open>The file system and the console\<close>

text \<open>
  A path is the tuple of its parts, as \<^verbatim>\<open>pathlib\<close> keeps it (\<^verbatim>\<open>Path('/a/b').parts\<close> is
  \<^verbatim>\<open>('/', 'a', 'b')\<close>, \<^verbatim>\<open>Path('.')\<close> has no part). \<open>Path\<close> splits a string at the
  slashes and drops the empty parts and the single dots; a part \<^verbatim>\<open>..\<close> is kept, as
  \<^verbatim>\<open>pathlib\<close> keeps it, and is then an ordinary name: symbolic links and \<^verbatim>\<open>..\<close> are
  outside this model, and so is the root \<^verbatim>\<open>//\<close> of POSIX.
\<close>

type_synonym path = "string list"

fun split_on :: "char \<Rightarrow> string \<Rightarrow> string list" where
  "split_on c [] = [[]]"
| "split_on c (x # xs) =
     (if x = c then [] # split_on c xs
      else (case split_on c xs of [] \<Rightarrow> [[x]] | p # ps \<Rightarrow> (x # p) # ps))"

definition Path :: "string \<Rightarrow> path" where
  "Path s =
     (case s of [] \<Rightarrow> [] | c # _ \<Rightarrow> (if c = CHR ''/'' then [''/''] else []))
     @ filter (\<lambda>p. p \<noteq> [] \<and> p \<noteq> ''.'') (split_on CHR ''/'' s)"

definition parent :: "path \<Rightarrow> path" where
  "parent p = (if p = [''/''] then p else butlast p)"

text \<open>
  The file system maps a path to what is there. The current directory and the root are
  always directories.
\<close>

datatype node = Dir | File string

type_synonym filesys = "path \<Rightarrow> node option"

definition lookup :: "filesys \<Rightarrow> path \<Rightarrow> node option" where
  "lookup f p = (if p = [] \<or> p = [''/''] then Some Dir else f p)"

definition is_dir :: "filesys \<Rightarrow> path \<Rightarrow> bool" where
  "is_dir f p = (lookup f p = Some Dir)"

definition is_file :: "filesys \<Rightarrow> path \<Rightarrow> bool" where
  "is_file f p = (case lookup f p of Some (File c) \<Rightarrow> True | _ \<Rightarrow> False)"

text \<open>
  \<^verbatim>\<open>Path.mkdir(parents=True, exist_ok=True)\<close>: an existing directory is accepted, a
  missing one is made after its missing parents; the call raises \<^verbatim>\<open>FileExistsError\<close> when
  the path is a file, and \<^verbatim>\<open>NotADirectoryError\<close> when one of its ancestors is. A call
  that raises has made nothing.
\<close>

function mkdir_parents_exist_ok :: "path \<Rightarrow> filesys \<Rightarrow> error + filesys" where
  "mkdir_parents_exist_ok p f =
     (case lookup f p of
        Some Dir \<Rightarrow> Inr f
      | Some (File c) \<Rightarrow> Inl FileExistsError
      | None \<Rightarrow>
          (case mkdir_parents_exist_ok (parent p) f of
             Inl e \<Rightarrow> Inl NotADirectoryError
           | Inr f' \<Rightarrow> Inr (f'(p := Some Dir))))"
  by pat_completeness auto
termination
proof (relation "measure (\<lambda>(p, f). length p)")
  show "wf (measure (\<lambda>(p, f). length p))"
    by simp
next
  fix p :: path and f :: filesys
  assume "lookup f p = None"
  then have "p \<noteq> []" and "p \<noteq> [''/'']"
    by (auto simp: lookup_def split: if_splits)
  then show "((parent p, f), (p, f)) \<in> measure (\<lambda>(p, f). length p)"
    by (simp add: parent_def)
qed

declare mkdir_parents_exist_ok.simps [simp del]

text \<open>
  \<^verbatim>\<open>with open(p, 'w') as f\<close> followed by one write of \<open>content\<close>: the file is created or
  replaced. Opening a directory raises \<^verbatim>\<open>IsADirectoryError\<close>; a missing parent raises
  \<^verbatim>\<open>FileNotFoundError\<close>, a parent that is a file \<^verbatim>\<open>NotADirectoryError\<close>.
\<close>

definition open_write :: "path \<Rightarrow> string \<Rightarrow> filesys \<Rightarrow> error + filesys" where
  "open_write p content f =
     (case lookup f p of
        Some Dir \<Rightarrow> Inl IsADirectoryError
      | _ \<Rightarrow>
          (case lookup f (parent p) of
             None \<Rightarrow> Inl FileNotFoundError
           | Some (File c) \<Rightarrow> Inl NotADirectoryError
           | Some Dir \<Rightarrow> Inr (f(p := Some (File content)))))"

text \<open>
  What a \<^verbatim>\<open>print\<close> call writes is kept as the pieces of its f-string: the literal text,
  the values and the paths that are formatted into it.
\<close>

datatype fragment = Lit string | Val pyval | PathV path

record world =
  fs :: filesys
  stdout :: "fragment list list"

text \<open>
  A Python function with effects takes the world and returns its result, or the
  exception it raised, with the world it leaves.
\<close>

type_synonym 'a io = "world \<Rightarrow> (error + 'a) \<times> world"

definition returnE :: "'a \<Rightarrow> 'a io" where
  "returnE x = (\<lambda>w. (Inr x, w))"

definition raise :: "error \<Rightarrow> 'a io" where
  "raise e = (\<lambda>w. (Inl e, w))"

definition lift :: "error + 'a \<Rightarrow> 'a io" where
  "lift r = (\<lambda>w. (r, w))"

definition bindE :: "'a io \<Rightarrow> ('a \<Rightarrow> 'b io) \<Rightarrow> 'b io" where
  "bindE m k = (\<lambda>w. case m w of (Inl e, w') \<Rightarrow> (Inl e, w') | (Inr x, w') \<Rightarrow> k x w')"

definition py_print :: "fragment list \<Rightarrow> unit io" where
  "py_print frags = (\<lambda>w. (Inr (), w\<lparr>stdout := stdout w @ [frags]\<rparr>))"

definition Path_mkdir :: "path \<Rightarrow> unit io" where
  "Path_mkdir p =
     (\<lambda>w. case mkdir_parents_exist_ok p (fs w) of
             Inl e \<Rightarrow> (Inl e, w)
           | Inr f' \<Rightarrow> (Inr (), w\<lparr>fs := f'\<rparr>))"

definition write_file :: "path \<Rightarrow> string \<Rightarrow> unit io" where
  "write_file p content =
     (\<lambda>w. case open_write p content (fs w) of
             Inl e \<Rightarrow> (Inl e, w)
           | Inr f' \<Rightarrow> (Inr (), w\<lparr>fs := f'\<rparr>))"

section \<open>scripts/domain_assembler.py\<close>

text \<open>The dictionary literal that \<^verbatim>\<open>generate_test_domain\<close> returns.\<close>

definition test_domain :: pyval where
  "test_domain = PDict [
     (''metadata'', PDict [
        (''name'', PStr ''test_kitting_cell''),
        (''description'', PStr ''Test environment for intention recognition''),
        (''version'', PStr ''1.0''),
        (''source'', PStr ''hardcoded_test_data'')]),
     (''environment'', PDict [
        (''width'', PInt 1600),
        (''height'', PInt 800),
        (''units'', PStr ''pixels'')]),
     (''zones'', PList [
        PDict [(''id'', PStr ''zone_SE''),
               (''bounds'', PDict [(''x_min'', PInt 800), (''x_max'', PInt 1600),
                                   (''y_min'', PInt 0), (''y_max'', PInt 400)]),
               (''label'', PStr ''southeast_storage'')],
        PDict [(''id'', PStr ''zone_SW''),
               (''bounds'', PDict [(''x_min'', PInt 0), (''x_max'', PInt 800),
                                   (''y_min'', PInt 0), (''y_max'', PInt 400)]),
               (''label'', PStr ''southwest_storage'')],
        PDict [(''id'', PStr ''zone_NW''),
               (''bounds'', PDict [(''x_min'', PInt 0), (''x_max'', PInt 800),
                                   (''y_min'', PInt 400), (''y_max'', PInt 800)]),
               (''label'', PStr ''northwest_work'')],
        PDict [(''id'', PStr ''zone_NE''),
               (''bounds'', PDict [(''x_min'', PInt 800), (''x_max'', PInt 1600),
                                   (''y_min'', PInt 400), (''y_max'', PInt 800)]),
               (''label'', PStr ''northeast_work'')]]),
     (''shelves'', PList [
        PDict [(''id'', PStr ''shelf_1''), (''position'', PList [PInt 100, PInt 100]),
               (''size'', PList [PInt 100, PInt 100]), (''slots'', PInt 4),
               (''zone'', PStr ''zone_SW'')],
        PDict [(''id'', PStr ''shelf_2''), (''position'', PList [PInt 300, PInt 100]),
               (''size'', PList [PInt 100, PInt 100]), (''slots'', PInt 4),
               (''zone'', PStr ''zone_SW'')],
        PDict [(''id'', PStr ''shelf_3''), (''position'', PList [PInt 1400, PInt 100]),
               (''size'', PList [PInt 100, PInt 100]), (''slots'', PInt 4),
               (''zone'', PStr ''zone_SE'')]]),
     (''tables'', PList [
        PDict [(''id'', PStr ''kitting_table''), (''position'', PList [PInt 650, PInt 710]),
               (''size'', PList [PInt 300, PInt 90]), (''zone'', PStr ''zone_NW'')]]),
     (''doors'', PList [
        PDict [(''id'', PStr ''south_exit''), (''position'', PList [PInt 725, PInt 0]),
               (''size'', PList [PInt 150, PInt 30]), (''function'', PStr ''exit'')],
        PDict [(''id'', PStr ''north_entry_A''), (''position'', PList [PInt 1450, PInt 770]),
               (''size'', PList [PInt 150, PInt 30]), (''function'', PStr ''enter'')]]),
     (''items'', PList [
        PDict [(''id'', PStr ''item_1''), (''type'', PStr ''part_A''),
               (''initial_location'', PStr ''shelf_1''), (''size'', PList [PInt 25, PInt 25])],
        PDict [(''id'', PStr ''item_2''), (''type'', PStr ''part_A''),
               (''initial_location'', PStr ''shelf_2''), (''size'', PList [PInt 25, PInt 25])],
        PDict [(''id'', PStr ''item_3''), (''type'', PStr ''part_B''),
               (''initial_location'', PStr ''shelf_3''), (''size'', PList [PInt 25, PInt 25])]])]"

definition generate_test_domain :: "pyval io" where
  "generate_test_domain = returnE test_domain"

text \<open>
  \<^verbatim>\<open>convert_gazebo_to_domain\<close>. \<^verbatim>\<open>yaml.dump(domain, f, default_flow_style=False,
  sort_keys=False)\<close> is PyYAML's: the text it writes for a value is the parameter
  \<open>yaml_dump\<close>.
\<close>

definition convert_gazebo_to_domain ::
  "(pyval \<Rightarrow> string) \<Rightarrow> string option \<Rightarrow> string \<Rightarrow> unit io" where
  "convert_gazebo_to_domain yaml_dump gazebo_json_path output_path_arg =
     (let output_path = Path output_path_arg in
      bindE (Path_mkdir (parent output_path)) (\<lambda>_.
      bindE (case gazebo_json_path of
               None \<Rightarrow>
                 bindE (py_print [Lit ''No Gazebo JSON provided - generating test data''])
                   (\<lambda>_. generate_test_domain)
             | Some g \<Rightarrow>
                 bindE (py_print [Lit ''Parsing Gazebo JSON from '', Lit g])
                   (\<lambda>_. raise NotImplementedError)) (\<lambda>domain.
      bindE (write_file output_path (yaml_dump domain)) (\<lambda>_.
      bindE (py_print [Lit ''Generated domain config at '', PathV output_path]) (\<lambda>_.
      bindE (py_print [Lit (CHR 0x0A # ''Domain Summary:'')]) (\<lambda>_.
      bindE (lift (getitem domain ''shelves'')) (\<lambda>shelves.
      bindE (lift (py_len shelves)) (\<lambda>n_shelves.
      bindE (py_print [Lit ''  - Shelves: '', Val (PInt n_shelves)]) (\<lambda>_.
      bindE (lift (getitem domain ''items'')) (\<lambda>items.
      bindE (lift (py_len items)) (\<lambda>n_items.
      bindE (py_print [Lit ''  - Items: '', Val (PInt n_items)]) (\<lambda>_.
      bindE (lift (getitem domain ''zones'')) (\<lambda>zones.
      bindE (lift (py_len zones)) (\<lambda>n_zones.
      bindE (py_print [Lit ''  - Zones: '', Val (PInt n_zones)]) (\<lambda>_.
      bindE (lift (getitem domain ''environment'')) (\<lambda>env1.
      bindE (lift (getitem env1 ''width'')) (\<lambda>width.
      bindE (lift (getitem domain ''environment'')) (\<lambda>env2.
      bindE (lift (getitem env2 ''height'')) (\<lambda>height.
      py_print [Lit ''  - Grid: '', Val width, Lit ''x'', Val height])))))))))))))))))))"

text \<open>
  The \<^verbatim>\<open>__main__\<close> block. \<^verbatim>\<open>argparse\<close> gives \<^verbatim>\<open>--input\<close> the default \<^verbatim>\<open>None\<close> and
  \<^verbatim>\<open>--output\<close> the default \<^verbatim>\<open>configs/domain.yaml\<close>: \<open>args_output\<close> is \<^verbatim>\<open>args.output\<close>. The result is the exit status of the
  interpreter: 0 when the block runs to its end, 1 when an exception leaves it.
\<close>

definition args_output :: "string option \<Rightarrow> string" where
  "args_output output_arg =
     (case output_arg of None \<Rightarrow> ''configs/domain.yaml'' | Some p \<Rightarrow> p)"

definition main :: "(pyval \<Rightarrow> string) \<Rightarrow> string option \<Rightarrow> string option \<Rightarrow> world \<Rightarrow> int \<times> world" where
  "main yaml_dump input_arg output_arg w =
     (case convert_gazebo_to_domain yaml_dump input_arg (args_output output_arg) w of
        (Inl e, w') \<Rightarrow> (1, w')
      | (Inr u, w') \<Rightarrow>
          (0, snd (py_print [Lit ''Domain assembly complete. file '',
                             Lit (args_output output_arg), Lit '' generated.''] w')))"

section \<open>Reading a domain dictionary\<close>

text \<open>
  The queries in which the properties of the generated domain are stated: the records
  listed under a top-level key, a field of a record, and the \<^verbatim>\<open>id\<close>s of a list of
  records.
\<close>

definition entries_of :: "pyval \<Rightarrow> string \<Rightarrow> pyval list" where
  "entries_of d k = (case getitem d k of Inr (PList xs) \<Rightarrow> xs | _ \<Rightarrow> [])"

definition get_field :: "pyval \<Rightarrow> string \<Rightarrow> pyval option" where
  "get_field e k = (case getitem e k of Inl err \<Rightarrow> None | Inr v \<Rightarrow> Some v)"

definition ids :: "pyval list \<Rightarrow> pyval list" where
  "ids es = List.map_filter (\<lambda>e. get_field e ''id'') es"

definition refers_to :: "pyval list \<Rightarrow> string \<Rightarrow> pyval \<Rightarrow> bool" where
  "refers_to targets k e = (case get_field e k of None \<Rightarrow> False | Some v \<Rightarrow> v \<in> set targets)"

text \<open>
  Referential integrity of a domain: the \<^verbatim>\<open>zone\<close> of every shelf and table is the id of
  a zone, the \<^verbatim>\<open>initial_location\<close> of every item is the id of a shelf or a table.
\<close>

definition refs_ok :: "pyval \<Rightarrow> bool" where
  "refs_ok d =
     (list_all (refers_to (ids (entries_of d ''zones'')) ''zone'')
        (entries_of d ''shelves'' @ entries_of d ''tables'')
      \<and> list_all
          (refers_to (ids (entries_of d ''shelves'') @ ids (entries_of d ''tables''))
             ''initial_location'')
          (entries_of d ''items''))"

text \<open>
  No ancestor of the path, and not the path itself, is a regular file: then
  \<open>mkdir_parents_exist_ok\<close> does not raise.
\<close>

definition no_file_on :: "filesys \<Rightarrow> path \<Rightarrow> bool" where
  "no_file_on f p = list_all (\<lambda>n. \<not> is_file f (take n p)) [0..<Suc (length p)]"

text \<open>A world with an empty current directory and nothing printed.\<close>

definition empty_world :: world where
  "empty_world = \<lparr>fs = (\<lambda>p. None), stdout = []\<rparr>"

section \<open>The conditions of the specification\<close>

text \<open>
  The specification names checks that \<^verbatim>\<open>shared/types.py\<close> does not contain. They are
  written here from the specification's words, under names that start with \<open>spec\<close>, to
  state what the constructors of the code accept.
\<close>

definition spec_in_unit :: "real \<Rightarrow> bool" where
  "spec_in_unit x = (0 \<le> x \<and> x \<le> 1)"

text \<open>
  Modelled from the spec: \<^verbatim>\<open>validate_observation\<close>, absent from the code: confidence and
  progress in \<open>[0,1]\<close> and, when the zone is set, the zone among the zone ids of the
  domain.
\<close>

definition spec_observation_valid :: "pyval list \<Rightarrow> Observation \<Rightarrow> bool" where
  "spec_observation_valid zone_ids ob =
     (spec_in_unit (Observation.confidence ob)
      \<and> spec_in_unit (progress (action_context ob))
      \<and> (case zone (spatial_context ob) of None \<Rightarrow> True | Some z \<Rightarrow> PStr z \<in> set zone_ids))"

text \<open>
  Modelled from the spec: the conditions on a BeliefState other than the one on
  \<^verbatim>\<open>most_likely\<close>: probabilities in \<open>[0,1]\<close> that sum to 1 within \<open>1e-6\<close>, a confidence in
  \<open>[0,1]\<close>, and predicted next actions only for keys of the distribution.
\<close>

definition spec_belief_valid :: "BeliefState \<Rightarrow> bool" where
  "spec_belief_valid b =
     (distribution b \<noteq> []
      \<and> distinct (map fst (distribution b))
      \<and> list_all (\<lambda>kp. spec_in_unit (snd kp)) (distribution b)
      \<and> \<bar>sum_list (map snd (distribution b)) - 1\<bar> \<le> 1 / 10 ^ 6
      \<and> spec_in_unit (BeliefState.confidence b)
      \<and> list_all (\<lambda>k. k \<in> set (map fst (distribution b)))
          (map fst (predicted_next_actions b)))"

text \<open>
  Modelled from the spec: \<open>k\<close> is the key of maximum probability, and the
  lexicographically smallest of the keys that share the maximum.
\<close>

definition spec_is_most_likely :: "(string \<times> real) list \<Rightarrow> string \<Rightarrow> bool" where
  "spec_is_most_likely d k =
     list_ex (\<lambda>kp. fst kp = k \<and>
        list_all (\<lambda>kp'. snd kp' < snd kp \<or> (snd kp' = snd kp \<and> k \<le> fst kp')) d) d"

text \<open>
  Modelled from the spec: the table of the keys each action type requires, and an
  action that has them all.
\<close>

fun spec_required_keys :: "ActionType \<Rightarrow> string list" where
  "spec_required_keys NAVIGATE = [''target'']"
| "spec_required_keys PICK = [''target'', ''item'']"
| "spec_required_keys PLACE = [''target'', ''item'']"
| "spec_required_keys WAIT = []"
| "spec_required_keys HANDOVER = [''target'', ''item'']"

definition spec_has_required_keys :: "AbstractAction \<Rightarrow> bool" where
  "spec_has_required_keys a =
     list_all (\<lambda>k. k \<in> set (map fst (parameters a))) (spec_required_keys (action_type a))"

section \<open>Lemmas\<close>

subsection \<open>Running the effects\<close>

lemma getitem_test_domain:
  "\<exists>v. getitem test_domain ''shelves'' = Inr v \<and> py_len v = Inr 3"
  "\<exists>v. getitem test_domain ''items'' = Inr v \<and> py_len v = Inr 3"
  "\<exists>v. getitem test_domain ''zones'' = Inr v \<and> py_len v = Inr 4"
  "\<exists>v. getitem test_domain ''environment'' = Inr v
       \<and> getitem v ''width'' = Inr (PInt 1600) \<and> getitem v ''height'' = Inr (PInt 800)"
  by (simp_all add: test_domain_def)

lemma bindE_apply:
  "bindE m k w = (case m w of (Inl e, w') \<Rightarrow> (Inl e, w') | (Inr x, w') \<Rightarrow> k x w')"
  by (simp add: bindE_def)

lemma py_print_apply: "py_print frags w = (Inr (), w\<lparr>stdout := stdout w @ [frags]\<rparr>)"
  by (simp add: py_print_def)

lemma lift_apply: "lift r w = (r, w)"
  by (simp add: lift_def)

lemma raise_apply: "raise e w = (Inl e, w)"
  by (simp add: raise_def)

lemma generate_test_domain_apply: "generate_test_domain w = (Inr test_domain, w)"
  by (simp add: generate_test_domain_def returnE_def)

lemmas io_apply =
  bindE_apply py_print_apply lift_apply raise_apply generate_test_domain_apply
  Path_mkdir_def write_file_def

lemma convert_Some:
  "convert_gazebo_to_domain yd (Some g) out w =
     (case mkdir_parents_exist_ok (parent (Path out)) (fs w) of
        Inl e \<Rightarrow> (Inl e, w)
      | Inr f1 \<Rightarrow> (Inl NotImplementedError,
           w\<lparr>fs := f1, stdout := stdout w @ [[Lit ''Parsing Gazebo JSON from '', Lit g]]\<rparr>))"
  by (simp add: convert_gazebo_to_domain_def Let_def io_apply split: sum.splits)

lemma convert_None:
  "convert_gazebo_to_domain yd None out w =
     (case mkdir_parents_exist_ok (parent (Path out)) (fs w) of
        Inl e \<Rightarrow> (Inl e, w)
      | Inr f1 \<Rightarrow>
          (case open_write (Path out) (yd test_domain) f1 of
             Inl e \<Rightarrow> (Inl e, w\<lparr>fs := f1, stdout := stdout w @
                 [[Lit ''No Gazebo JSON provided - generating test data'']]\<rparr>)
           | Inr f2 \<Rightarrow> (Inr (), w\<lparr>fs := f2, stdout := stdout w @
                 [[Lit ''No Gazebo JSON provided - generating test data''],
                  [Lit ''Generated domain config at '', PathV (Path out)],
                  [Lit (CHR 0x0A # ''Domain Summary:'')],
                  [Lit ''  - Shelves: '', Val (PInt 3)],
                  [Lit ''  - Items: '', Val (PInt 3)],
                  [Lit ''  - Zones: '', Val (PInt 4)],
                  [Lit ''  - Grid: '', Val (PInt 1600), Lit ''x'', Val (PInt 800)]]\<rparr>)))"
proof -
  obtain sh it zn en where
    sh: "getitem test_domain ''shelves'' = Inr sh" "py_len sh = Inr 3" and
    it: "getitem test_domain ''items'' = Inr it" "py_len it = Inr 3" and
    zn: "getitem test_domain ''zones'' = Inr zn" "py_len zn = Inr 4" and
    en: "getitem test_domain ''environment'' = Inr en"
        "getitem en ''width'' = Inr (PInt 1600)" "getitem en ''height'' = Inr (PInt 800)"
    using getitem_test_domain by blast
  show ?thesis
    by (simp add: convert_gazebo_to_domain_def Let_def io_apply sh it zn en
        split: sum.splits)
qed

subsection \<open>The file system\<close>

lemma lookup_upd_other: "q \<noteq> p \<Longrightarrow> lookup (f(p := v)) q = lookup f q"
  by (simp add: lookup_def)

lemma mkdir_is_dir:
  "mkdir_parents_exist_ok p f = Inr f' \<Longrightarrow> lookup f' p = Some Dir"
  by (subst (asm) mkdir_parents_exist_ok.simps)
     (auto simp: lookup_def split: option.splits node.splits sum.splits)

lemma mkdir_existing:
  "lookup f p = Some Dir \<Longrightarrow> mkdir_parents_exist_ok p f = Inr f"
  by (subst mkdir_parents_exist_ok.simps) simp

lemma length_parent: "length (parent p) \<le> length p"
  by (simp add: parent_def)

lemma mkdir_frame:
  "mkdir_parents_exist_ok p f = Inr f' \<Longrightarrow> length p < length q \<Longrightarrow> f' q = f q"
proof (induction p f arbitrary: f' rule: mkdir_parents_exist_ok.induct)
  case (1 p f)
  show ?case
  proof (cases "lookup f p")
    case None
    with "1.prems"(1) obtain f1 where
      f1: "mkdir_parents_exist_ok (parent p) f = Inr f1" and f': "f' = f1(p := Some Dir)"
      by (subst (asm) mkdir_parents_exist_ok.simps) (auto split: sum.splits)
    have "length (parent p) < length q"
      using length_parent [of p] "1.prems"(2) by linarith
    then have "f1 q = f q"
      using "1.IH" [OF None f1] by simp
    moreover have "q \<noteq> p"
      using "1.prems"(2) by auto
    ultimately show ?thesis
      by (simp add: f')
  next
    case (Some n)
    with "1.prems"(1) have "f' = f"
      by (subst (asm) mkdir_parents_exist_ok.simps) (auto split: node.splits)
    then show ?thesis by simp
  qed
qed

lemma mkdir_keeps_child:
  assumes "mkdir_parents_exist_ok (parent p) f = Inr f'"
  shows "lookup f' p = lookup f p"
proof (cases "p = [] \<or> p = [''/'']")
  case True
  then show ?thesis by (auto simp: lookup_def)
next
  case False
  then have "length (parent p) < length p"
    by (simp add: parent_def)
  then have "f' p = f p"
    using mkdir_frame [OF assms] by simp
  then show ?thesis by (simp add: lookup_def)
qed

lemma no_file_on_iff: "no_file_on f p \<longleftrightarrow> (\<forall>n\<le>length p. \<not> is_file f (take n p))"
  by (auto simp: no_file_on_def list_all_iff less_Suc_eq_le)

lemma mkdir_succeeds:
  "no_file_on f p \<Longrightarrow> \<exists>f'. mkdir_parents_exist_ok p f = Inr f'"
proof (induction p f rule: mkdir_parents_exist_ok.induct)
  case (1 p f)
  show ?case
  proof (cases "lookup f p")
    case None
    then have ne: "p \<noteq> []" "p \<noteq> [''/'']"
      by (auto simp: lookup_def split: if_splits)
    then have par: "parent p = butlast p"
      by (simp add: parent_def)
    have "no_file_on f (parent p)"
      unfolding no_file_on_iff par
    proof (intro allI impI)
      fix n assume "n \<le> length (butlast p)"
      moreover have "length p \<noteq> 0" using ne by simp
      ultimately have n: "n < length p"
        unfolding length_butlast by linarith
      then have "take n (butlast p) = take n p"
        by (simp add: take_butlast)
      moreover have "\<not> is_file f (take n p)"
        using "1.prems" n by (simp add: no_file_on_iff)
      ultimately show "\<not> is_file f (take n (butlast p))" by simp
    qed
    then obtain f1 where "mkdir_parents_exist_ok (parent p) f = Inr f1"
      using "1.IH" [OF None] by blast
    then show ?thesis
      by (subst mkdir_parents_exist_ok.simps) (simp add: None)
  next
    case (Some n)
    have "\<not> is_file f p"
      using "1.prems" by (auto simp: no_file_on_iff dest: spec [of _ "length p"])
    with Some have "n = Dir"
      by (cases n) (auto simp: is_file_def)
    then show ?thesis
      using Some by (subst mkdir_parents_exist_ok.simps) simp
  qed
qed

lemma open_write_Inr:
  assumes "open_write p c f = Inr f'"
  shows "f' = f(p := Some (File c))" and "lookup f' p = Some (File c)"
    and "lookup f (parent p) = Some Dir" and "parent p \<noteq> p"
proof -
  from assms have nd: "lookup f p \<noteq> Some Dir"
    by (auto simp: open_write_def split: option.splits node.splits)
  then have ne: "p \<noteq> []" "p \<noteq> [''/'']"
    by (auto simp: lookup_def)
  from assms show f': "f' = f(p := Some (File c))" and "lookup f (parent p) = Some Dir"
    by (auto simp: open_write_def split: option.splits node.splits)
  from ne show "lookup f' p = Some (File c)"
    by (simp add: f' lookup_def)
  from ne show "parent p \<noteq> p"
    by (simp add: parent_def) (metis length_butlast diff_less length_greater_0_conv less_irrefl zero_less_one)
qed

lemma open_write_again:
  assumes "open_write p c f = Inr f'"
  shows "mkdir_parents_exist_ok (parent p) f' = Inr f'" and "open_write p c f' = Inr f'"
proof -
  note ow = open_write_Inr [OF assms]
  have par: "lookup f' (parent p) = Some Dir"
    using ow(3,4) by (simp add: ow(1) lookup_upd_other)
  then show "mkdir_parents_exist_ok (parent p) f' = Inr f'"
    by (rule mkdir_existing)
  show "open_write p c f' = Inr f'"
    using ow(2) par by (simp add: open_write_def ow(1))
qed

subsection \<open>The test domain and the default run\<close>

lemma main_apply:
  "main yd inp oarg w =
     (case convert_gazebo_to_domain yd inp (args_output oarg) w of
        (Inl e, w') \<Rightarrow> (1, w')
      | (Inr u, w') \<Rightarrow>
          (0, w'\<lparr>stdout := stdout w' @
                 [[Lit ''Domain assembly complete. file '', Lit (args_output oarg),
                   Lit '' generated.'']]\<rparr>))"
  by (simp add: main_def py_print_def split: sum.splits prod.splits)

lemma args_output_simps:
  "args_output None = ''configs/domain.yaml''" "args_output (Some p) = p"
  by (simp_all add: args_output_def)

lemma Path_default: "Path ''configs/domain.yaml'' = [''configs'', ''domain.yaml'']"
  by (simp add: Path_def)

lemma test_domain_counts:
  "ids (entries_of test_domain ''zones'') =
     [PStr ''zone_SE'', PStr ''zone_SW'', PStr ''zone_NW'', PStr ''zone_NE'']"
  "length (entries_of test_domain ''zones'') = 4"
  "length (entries_of test_domain ''shelves'') = 3"
  "length (entries_of test_domain ''tables'') = 1"
  "length (entries_of test_domain ''doors'') = 2"
  "length (entries_of test_domain ''items'') = 3"
  by (simp_all add: test_domain_def entries_of_def ids_def get_field_def)

lemma test_domain_refs_ok: "refs_ok test_domain"
  by (simp add: refs_ok_def test_domain_def entries_of_def ids_def get_field_def
      refers_to_def)

lemma convert_default_ok:
  assumes "\<not> is_file (fs w) [''configs'']"
    and "\<not> is_dir (fs w) [''configs'', ''domain.yaml'']"
  shows "\<exists>w'. convert_gazebo_to_domain yd None ''configs/domain.yaml'' w = (Inr (), w')
      \<and> lookup (fs w') [''configs'', ''domain.yaml''] = Some (File (yd test_domain))"
proof -
  let ?p = "[''configs'', ''domain.yaml'']"
  have "no_file_on (fs w) [''configs'']"
    using assms(1) by (simp add: no_file_on_def is_file_def lookup_def)
  then obtain f1 where f1: "mkdir_parents_exist_ok [''configs''] (fs w) = Inr f1"
    using mkdir_succeeds by blast
  have par: "parent ?p = [''configs'']"
    by (simp add: parent_def)
  have "lookup f1 ?p = lookup (fs w) ?p"
    using mkdir_keeps_child [of ?p] f1 par by simp
  then have nd: "lookup f1 ?p \<noteq> Some Dir"
    using assms(2) by (simp add: is_dir_def)
  have pd: "lookup f1 [''configs''] = Some Dir"
    using f1 by (rule mkdir_is_dir)
  have ow: "open_write ?p (yd test_domain) f1 = Inr (f1(?p := Some (File (yd test_domain))))"
    using nd pd by (auto simp: open_write_def par split: option.splits node.splits)
  show ?thesis
    by (simp add: convert_None Path_default par f1 ow lookup_def)
qed

lemma main_default_ok:
  assumes "\<not> is_file (fs w) [''configs'']"
    and "\<not> is_dir (fs w) [''configs'', ''domain.yaml'']"
    and "args_output output_arg = ''configs/domain.yaml''"
  shows "\<exists>w'. main yd None output_arg w = (0, w')
      \<and> lookup (fs w') [''configs'', ''domain.yaml''] = Some (File (yd test_domain))"
  using convert_default_ok [OF assms(1,2), of yd] assms(3) by (auto simp: main_apply)

lemma convert_None_Inr:
  assumes "convert_gazebo_to_domain yd None out w = (Inr u, w')"
  shows "\<exists>f1. mkdir_parents_exist_ok (parent (Path out)) (fs w) = Inr f1
           \<and> open_write (Path out) (yd test_domain) f1 = Inr (fs w')"
  using assms by (auto simp: convert_None split: sum.splits)

section \<open>The data classes\<close>

text \<open>
  Claim C1 says that an Observation whose confidence or progress is outside \<open>[0,1]\<close>, or
  whose zone is not a zone id of the domain, cannot be constructed. The constructors accept
  one: confidence 2, progress -1 and the zone \<^verbatim>\<open>zone_X\<close>, which is no zone of the
  generated domain.
\<close>

theorem observation_out_of_range_constructed:
  "SpatialContext_init (0, 0) 0 (Some ''zone_X'')
     = Inr \<lparr>position = (0, 0), orientation = 0, zone = Some ''zone_X''\<rparr>
   \<and> ActionContext_init None (Some (- 1)) None
     = Inr \<lparr>target_object = None, progress = - 1, metadata = []\<rparr>
   \<and> Observation_init 0 ''human_1'' ''move_to_shelf_3''
       \<lparr>position = (0, 0), orientation = 0, zone = Some ''zone_X''\<rparr>
       \<lparr>target_object = None, progress = - 1, metadata = []\<rparr> (Some 2)
     = Inr \<lparr>Observation.timestamp = 0, Observation.agent_id = ''human_1'',
            detected_microaction = ''move_to_shelf_3'',
            spatial_context = \<lparr>position = (0, 0), orientation = 0, zone = Some ''zone_X''\<rparr>,
            action_context = \<lparr>target_object = None, progress = - 1, metadata = []\<rparr>,
            Observation.confidence = 2\<rparr>
   \<and> \<not> spec_in_unit 2
   \<and> \<not> spec_in_unit (- 1)
   \<and> PStr ''zone_X'' \<notin> set (ids (entries_of test_domain ''zones''))
   \<and> \<not> spec_observation_valid (ids (entries_of test_domain ''zones''))
        \<lparr>Observation.timestamp = 0, Observation.agent_id = ''human_1'',
         detected_microaction = ''move_to_shelf_3'',
         spatial_context = \<lparr>position = (0, 0), orientation = 0, zone = Some ''zone_X''\<rparr>,
         action_context = \<lparr>target_object = None, progress = - 1, metadata = []\<rparr>,
         Observation.confidence = 2\<rparr>"
  by (simp add: SpatialContext_init_def ActionContext_init_def Observation_init_def
      spec_in_unit_def spec_observation_valid_def test_domain_def entries_of_def ids_def
      get_field_def)

text \<open>
  Claim C1, as the code has it: the constructors of SpatialContext, ActionContext and
  Observation check nothing. For all arguments they return an instance, and its
  confidence, progress and zone are the values given (or the default of an omitted
  argument).
\<close>

theorem observation_init_never_validates:
  "(\<exists>ob. Observation_init ts aid micro sc ac conf = Inr ob
         \<and> Observation.confidence ob = (case conf of None \<Rightarrow> 1 | Some c \<Rightarrow> c)
         \<and> spatial_context ob = sc \<and> action_context ob = ac)
   \<and> (\<exists>a. ActionContext_init tgt prog meta = Inr a
         \<and> progress a = (case prog of None \<Rightarrow> 0 | Some p \<Rightarrow> p))
   \<and> (\<exists>s. SpatialContext_init pos ori zn = Inr s \<and> zone s = zn)"
  by (simp add: Observation_init_def ActionContext_init_def SpatialContext_init_def)

text \<open>
  Claim C2 says that \<^verbatim>\<open>most_likely\<close> is the key of maximum probability, the smallest one
  on a tie. The constructor accepts a BeliefState that meets every other condition of the
  specification and whose \<^verbatim>\<open>most_likely\<close> is \<^verbatim>\<open>B\<close>, for the distribution
  \<^verbatim>\<open>{A: 0.7, B: 0.3}\<close> and for \<^verbatim>\<open>{A: 0.5, B: 0.5}\<close>; the key the claim asks for is
  \<^verbatim>\<open>A\<close> in both.
\<close>

theorem belief_state_most_likely_not_argmax:
  "BeliefState_init 0 ''human_1'' [(''A'', 7 / 10), (''B'', 3 / 10)] ''B'' 1 None
     = Inr \<lparr>timestamp = 0, agent_id = ''human_1'',
            distribution = [(''A'', 7 / 10), (''B'', 3 / 10)], most_likely = ''B'',
            confidence = 1, predicted_next_actions = []\<rparr>
   \<and> spec_belief_valid
        \<lparr>timestamp = 0, agent_id = ''human_1'',
         distribution = [(''A'', 7 / 10), (''B'', 3 / 10)], most_likely = ''B'',
         confidence = 1, predicted_next_actions = []\<rparr>
   \<and> spec_is_most_likely [(''A'', 7 / 10), (''B'', 3 / 10)] ''A''
   \<and> \<not> spec_is_most_likely [(''A'', 7 / 10), (''B'', 3 / 10)] ''B''
   \<and> BeliefState_init 0 ''human_1'' [(''A'', 1 / 2), (''B'', 1 / 2)] ''B'' 1 None
     = Inr \<lparr>timestamp = 0, agent_id = ''human_1'',
            distribution = [(''A'', 1 / 2), (''B'', 1 / 2)], most_likely = ''B'',
            confidence = 1, predicted_next_actions = []\<rparr>
   \<and> spec_is_most_likely [(''A'', 1 / 2), (''B'', 1 / 2)] ''A''
   \<and> \<not> spec_is_most_likely [(''A'', 1 / 2), (''B'', 1 / 2)] ''B''"
  by (simp add: BeliefState_init_def spec_belief_valid_def spec_in_unit_def
      spec_is_most_likely_def)

text \<open>
  Claim C2, as the code has it: \<^verbatim>\<open>most_likely\<close> is the value the caller passes to the
  constructor. It is stored beside the distribution, which is stored as given too, and
  is neither computed from it nor compared with it.
\<close>

theorem belief_state_most_likely_as_given:
  "\<exists>b. BeliefState_init ts aid d ml conf pna = Inr b
       \<and> most_likely b = ml \<and> distribution b = d"
  by (simp add: BeliefState_init_def)

text \<open>
  Claim C3 says that the parameters of every AbstractAction contain the keys its action
  type requires. The constructor accepts a NAVIGATE action with no parameter, and a PICK
  action with a target and no item.
\<close>

theorem abstract_action_missing_required_key:
  "AbstractAction_init NAVIGATE [] None None None None
     = Inr \<lparr>action_type = NAVIGATE, parameters = [], estimated_path = None,
            estimated_duration = 0, spatial_constraints = [], temporal_constraints = []\<rparr>
   \<and> \<not> spec_has_required_keys
        \<lparr>action_type = NAVIGATE, parameters = [], estimated_path = None,
         estimated_duration = 0, spatial_constraints = [], temporal_constraints = []\<rparr>
   \<and> AbstractAction_init PICK [(''target'', PStr ''shelf_3'')] None None None None
     = Inr \<lparr>action_type = PICK, parameters = [(''target'', PStr ''shelf_3'')],
            estimated_path = None, estimated_duration = 0, spatial_constraints = [],
            temporal_constraints = []\<rparr>
   \<and> \<not> spec_has_required_keys
        \<lparr>action_type = PICK, parameters = [(''target'', PStr ''shelf_3'')],
         estimated_path = None, estimated_duration = 0, spatial_constraints = [],
         temporal_constraints = []\<rparr>"
  by (simp add: AbstractAction_init_def spec_has_required_keys_def)

text \<open>
  Claim C3, as the code has it: the constructor stores the action type and the parameters
  as given, for every action type and every mapping. The action has the required keys of
  its type exactly when the mapping passed has them, which it always has for WAIT, the
  type that requires none.
\<close>

theorem abstract_action_parameters_as_given:
  "(\<exists>a. AbstractAction_init ty ps path dur sc tc = Inr a
        \<and> action_type a = ty \<and> parameters a = ps
        \<and> spec_has_required_keys a
            = list_all (\<lambda>k. k \<in> set (map fst ps)) (spec_required_keys ty))
   \<and> (\<exists>a. AbstractAction_init WAIT ps path dur sc tc = Inr a \<and> spec_has_required_keys a)"
  by (simp add: AbstractAction_init_def spec_has_required_keys_def)

text \<open>
  Claim C8. An Observation constructed without a confidence has confidence 1.0, and an
  ActionContext constructed without a progress has progress 0.0. The defaults stand for
  the omitted argument only: a value that is passed, whatever it is, is stored as it is
  and is never replaced by the default.
\<close>

theorem schema_defaults:
  "(\<exists>ob. Observation_init ts aid micro sc ac None = Inr ob \<and> Observation.confidence ob = 1)
   \<and> (\<exists>a. ActionContext_init tgt None meta = Inr a \<and> progress a = 0)
   \<and> (\<exists>ob. Observation_init ts aid micro sc ac (Some c) = Inr ob \<and> Observation.confidence ob = c)
   \<and> (\<exists>a. ActionContext_init tgt (Some p) meta = Inr a \<and> progress a = p)"
  by (simp add: Observation_init_def ActionContext_init_def)

section \<open>The generation tool\<close>

text \<open>
  Claim C4. Run with no input and the output path \<^verbatim>\<open>configs/domain.yaml\<close> (given, or by
  default), where \<^verbatim>\<open>configs\<close> is not a regular file and \<^verbatim>\<open>configs/domain.yaml\<close> is not
  a directory, the tool exits with status 0 and leaves in the file the dump of the test
  domain: 4 zones with the ids zone_SE, zone_SW, zone_NW, zone_NE, 3 shelves, 1 table,
  2 doors, 3 items, and an environment of width 1600 and height 800.
\<close>

theorem main_no_input_generates_test_domain:
  assumes "\<not> is_file (fs w) [''configs'']"
    and "\<not> is_dir (fs w) [''configs'', ''domain.yaml'']"
  shows "\<exists>w'. main yaml_dump None (Some ''configs/domain.yaml'') w = (0, w')
      \<and> main yaml_dump None None w = (0, w')
      \<and> lookup (fs w') [''configs'', ''domain.yaml''] = Some (File (yaml_dump test_domain))
      \<and> ids (entries_of test_domain ''zones'') =
           [PStr ''zone_SE'', PStr ''zone_SW'', PStr ''zone_NW'', PStr ''zone_NE'']
      \<and> length (entries_of test_domain ''zones'') = 4
      \<and> length (entries_of test_domain ''shelves'') = 3
      \<and> length (entries_of test_domain ''tables'') = 1
      \<and> length (entries_of test_domain ''doors'') = 2
      \<and> length (entries_of test_domain ''items'') = 3
      \<and> (\<exists>env. getitem test_domain ''environment'' = Inr env
             \<and> getitem env ''width'' = Inr (PInt 1600)
             \<and> getitem env ''height'' = Inr (PInt 800))"
proof -
  obtain w' where "main yaml_dump None None w = (0, w')"
    "lookup (fs w') [''configs'', ''domain.yaml''] = Some (File (yaml_dump test_domain))"
    using main_default_ok [OF assms args_output_simps(1), of yaml_dump] by auto
  moreover have "main yaml_dump None (Some ''configs/domain.yaml'') w = main yaml_dump None None w"
    unfolding main_def args_output_simps by (rule refl)
  ultimately show ?thesis
    using getitem_test_domain(4) by (simp add: test_domain_counts)
qed

theorem main_no_input_generates_test_domain_witness:
  "\<not> is_file (fs empty_world) [''configs'']
   \<and> \<not> is_dir (fs empty_world) [''configs'', ''domain.yaml'']
   \<and> fst (main (\<lambda>v. ''domain'') None None empty_world) = 0
   \<and> lookup (fs (snd (main (\<lambda>v. ''domain'') None (Some ''configs/domain.yaml'') empty_world)))
        [''configs'', ''domain.yaml''] = Some (File ''domain'')"
proof -
  have h1: "\<not> is_file (fs empty_world) [''configs'']"
    by (simp add: empty_world_def is_file_def lookup_def)
  have h2: "\<not> is_dir (fs empty_world) [''configs'', ''domain.yaml'']"
    by (simp add: empty_world_def is_dir_def lookup_def)
  from main_no_input_generates_test_domain [OF h1 h2, of "\<lambda>v. ''domain''"] show ?thesis
    using h1 h2 by auto
qed

text \<open>
  Claim C5. Run with an input path, the tool ends on an exception, so with exit status 1,
  and what is at the output path (given, or the default) is what was there before: the
  output file is not written. The exception is \<^verbatim>\<open>NotImplementedError\<close> whenever the
  parent directory can be made (no regular file stands on its path).
\<close>

theorem main_with_input_fails_without_output:
  "\<exists>e w'. convert_gazebo_to_domain yaml_dump (Some g) (args_output output_arg) w = (Inl e, w')
      \<and> main yaml_dump (Some g) output_arg w = (1, w')
      \<and> lookup (fs w') (Path (args_output output_arg))
          = lookup (fs w) (Path (args_output output_arg))
      \<and> (no_file_on (fs w) (parent (Path (args_output output_arg)))
           \<longrightarrow> e = NotImplementedError)"
proof (cases "mkdir_parents_exist_ok (parent (Path (args_output output_arg))) (fs w)")
  case (Inl e)
  then have "\<not> no_file_on (fs w) (parent (Path (args_output output_arg)))"
    using mkdir_succeeds [of "fs w" "parent (Path (args_output output_arg))"] by auto
  with Inl show ?thesis
    by (simp add: convert_Some main_apply)
next
  case (Inr f1)
  then have "lookup f1 (Path (args_output output_arg)) = lookup (fs w) (Path (args_output output_arg))"
    by (rule mkdir_keeps_child)
  with Inr show ?thesis
    by (simp add: convert_Some main_apply)
qed

theorem main_with_input_fails_without_output_witness:
  "no_file_on (fs empty_world) (parent (Path ''configs/domain.yaml''))
   \<and> fst (convert_gazebo_to_domain (\<lambda>v. ''domain'') (Some ''world.json'') ''configs/domain.yaml''
            empty_world) = Inl NotImplementedError
   \<and> fst (main (\<lambda>v. ''domain'') (Some ''world.json'') None empty_world) = 1
   \<and> lookup (fs (snd (main (\<lambda>v. ''domain'') (Some ''world.json'') None empty_world)))
        [''configs'', ''domain.yaml''] = None"
proof -
  have h: "no_file_on (fs empty_world) (parent (Path ''configs/domain.yaml''))"
    by (simp add: Path_default parent_def no_file_on_def is_file_def lookup_def empty_world_def)
  have l: "lookup (fs empty_world) (Path ''configs/domain.yaml'') = None"
    by (simp add: Path_default lookup_def empty_world_def)
  from main_with_input_fails_without_output
    [of "\<lambda>v. ''domain''" "''world.json''" None empty_world]
  show ?thesis
    using h l by (auto simp: Path_default args_output_simps)
qed

text \<open>
  Claim C6. Whenever \<^verbatim>\<open>convert_gazebo_to_domain\<close> returns, the file it wrote is the dump
  of the test domain, and in that domain the zone of every shelf and table is the id of
  a zone and the initial location of every item is the id of a shelf or a table.
\<close>

theorem emitted_domain_references_resolve:
  assumes "convert_gazebo_to_domain yaml_dump gazebo_json_path out w = (Inr u, w')"
  shows "lookup (fs w') (Path out) = Some (File (yaml_dump test_domain)) \<and> refs_ok test_domain"
proof (cases gazebo_json_path)
  case None
  with assms obtain f1 where "open_write (Path out) (yaml_dump test_domain) f1 = Inr (fs w')"
    using convert_None_Inr by blast
  then show ?thesis
    using open_write_Inr(2) test_domain_refs_ok by blast
next
  case (Some g)
  with assms show ?thesis
    by (simp add: convert_Some split: sum.splits)
qed

theorem emitted_domain_references_resolve_witness:
  "fst (convert_gazebo_to_domain (\<lambda>v. ''domain'') None ''configs/domain.yaml'' empty_world) = Inr ()
   \<and> lookup (fs (snd (convert_gazebo_to_domain (\<lambda>v. ''domain'') None ''configs/domain.yaml''
         empty_world))) [''configs'', ''domain.yaml''] = Some (File ''domain'')
   \<and> refs_ok test_domain"
proof -
  have h1: "\<not> is_file (fs empty_world) [''configs'']"
    by (simp add: empty_world_def is_file_def lookup_def)
  have h2: "\<not> is_dir (fs empty_world) [''configs'', ''domain.yaml'']"
    by (simp add: empty_world_def is_dir_def lookup_def)
  obtain w' where
    c: "convert_gazebo_to_domain (\<lambda>v. ''domain'') None ''configs/domain.yaml'' empty_world
          = (Inr (), w')"
    using convert_default_ok [OF h1 h2] by blast
  from emitted_domain_references_resolve [OF c] show ?thesis
    by (simp add: c Path_default)
qed

text \<open>
  Claim C7. When the tool, run with no input, has exited with status 0, a second run with
  the same output path exits with status 0 too, and the output file holds the same text
  after both runs: the dump of the test domain. The second run leaves the whole file
  system as the first left it.
\<close>

theorem main_twice_identical_output:
  assumes "main yaml_dump None output_arg w = (0, w1)"
  shows "\<exists>w2. main yaml_dump None output_arg w1 = (0, w2)
      \<and> lookup (fs w1) (Path (args_output output_arg)) = Some (File (yaml_dump test_domain))
      \<and> lookup (fs w2) (Path (args_output output_arg)) = Some (File (yaml_dump test_domain))
      \<and> fs w2 = fs w1"
proof -
  let ?out = "args_output output_arg"
  from assms obtain u w0 where
    c: "convert_gazebo_to_domain yaml_dump None ?out w = (Inr u, w0)" and fs: "fs w1 = fs w0"
    by (auto simp: main_apply split: sum.splits prod.splits)
  from convert_None_Inr [OF c] obtain f1 where
    ow: "open_write (Path ?out) (yaml_dump test_domain) f1 = Inr (fs w0)"
    by blast
  have again: "mkdir_parents_exist_ok (parent (Path ?out)) (fs w1) = Inr (fs w1)"
      "open_write (Path ?out) (yaml_dump test_domain) (fs w1) = Inr (fs w1)"
    using open_write_again [OF ow] by (simp_all add: fs)
  have "lookup (fs w1) (Path ?out) = Some (File (yaml_dump test_domain))"
    using open_write_Inr(2) [OF ow] by (simp add: fs)
  then show ?thesis
    by (simp add: main_apply convert_None again)
qed

theorem main_twice_identical_output_witness:
  "fst (main (\<lambda>v. ''domain'') None None empty_world) = 0
   \<and> fst (main (\<lambda>v. ''domain'') None None (snd (main (\<lambda>v. ''domain'') None None empty_world))) = 0
   \<and> lookup (fs (snd (main (\<lambda>v. ''domain'') None None
         (snd (main (\<lambda>v. ''domain'') None None empty_world))))) [''configs'', ''domain.yaml'']
       = lookup (fs (snd (main (\<lambda>v. ''domain'') None None empty_world))) [''configs'', ''domain.yaml'']
   \<and> lookup (fs (snd (main (\<lambda>v. ''domain'') None None empty_world))) [''configs'', ''domain.yaml'']
       = Some (File ''domain'')"
proof -
  have h1: "\<not> is_file (fs empty_world) [''configs'']"
    by (simp add: empty_world_def is_file_def lookup_def)
  have h2: "\<not> is_dir (fs empty_world) [''configs'', ''domain.yaml'']"
    by (simp add: empty_world_def is_dir_def lookup_def)
  obtain w1 where w1: "main (\<lambda>v. ''domain'') None None empty_world = (0, w1)"
    using main_default_ok [OF h1 h2 args_output_simps(1)] by blast
  from main_twice_identical_output [OF w1] show ?thesis
    by (auto simp: w1 args_output_simps Path_default)
qed

text \<open>
  Claim C9. Called with an input path, \<^verbatim>\<open>convert_gazebo_to_domain\<close> makes the parent
  directory of the output path before it raises \<^verbatim>\<open>NotImplementedError\<close>: after the call
  the parent is a directory, so the file system has changed when it was not one before,
  and what is at the output path itself is unchanged.
\<close>

theorem convert_with_input_makes_parent_first:
  assumes "no_file_on (fs w) (parent (Path out))"
  shows "\<exists>w'. convert_gazebo_to_domain yaml_dump (Some g) out w = (Inl NotImplementedError, w')
      \<and> is_dir (fs w') (parent (Path out))
      \<and> lookup (fs w') (Path out) = lookup (fs w) (Path out)
      \<and> (\<not> is_dir (fs w) (parent (Path out)) \<longrightarrow> fs w' \<noteq> fs w)"
proof -
  obtain f1 where f1: "mkdir_parents_exist_ok (parent (Path out)) (fs w) = Inr f1"
    using mkdir_succeeds [OF assms] by blast
  have "is_dir f1 (parent (Path out))"
    using mkdir_is_dir [OF f1] by (simp add: is_dir_def)
  moreover have "lookup f1 (Path out) = lookup (fs w) (Path out)"
    using f1 by (rule mkdir_keeps_child)
  ultimately show ?thesis
    by (auto simp: convert_Some f1)
qed

theorem convert_with_input_makes_parent_first_witness:
  "no_file_on (fs empty_world) (parent (Path ''out/configs/domain.yaml''))
   \<and> \<not> is_dir (fs empty_world) [''out'']
   \<and> \<not> is_dir (fs empty_world) [''out'', ''configs'']
   \<and> fst (convert_gazebo_to_domain (\<lambda>v. ''domain'') (Some ''world.json'')
            ''out/configs/domain.yaml'' empty_world) = Inl NotImplementedError
   \<and> is_dir (fs (snd (convert_gazebo_to_domain (\<lambda>v. ''domain'') (Some ''world.json'')
            ''out/configs/domain.yaml'' empty_world))) [''out'']
   \<and> is_dir (fs (snd (convert_gazebo_to_domain (\<lambda>v. ''domain'') (Some ''world.json'')
            ''out/configs/domain.yaml'' empty_world))) [''out'', ''configs'']
   \<and> lookup (fs (snd (convert_gazebo_to_domain (\<lambda>v. ''domain'') (Some ''world.json'')
            ''out/configs/domain.yaml'' empty_world))) [''out'', ''configs'', ''domain.yaml''] = None
   \<and> fs (snd (convert_gazebo_to_domain (\<lambda>v. ''domain'') (Some ''world.json'')
            ''out/configs/domain.yaml'' empty_world)) \<noteq> fs empty_world"
proof -
  have p: "Path ''out/configs/domain.yaml'' = [''out'', ''configs'', ''domain.yaml'']"
    by (simp add: Path_def)
  have h: "no_file_on (fs empty_world) (parent (Path ''out/configs/domain.yaml''))"
    by (simp add: p parent_def no_file_on_def is_file_def lookup_def empty_world_def)
  have n: "\<not> is_dir (fs empty_world) [''out'']" "\<not> is_dir (fs empty_world) [''out'', ''configs'']"
    by (simp_all add: is_dir_def lookup_def empty_world_def)
  have l: "lookup (fs empty_world) [''out'', ''configs'', ''domain.yaml''] = None"
    by (simp add: lookup_def empty_world_def)
  have g: "is_dir (fs (snd (convert_gazebo_to_domain (\<lambda>v. ''domain'') (Some ''world.json'')
            ''out/configs/domain.yaml'' empty_world))) [''out'']"
    by (simp add: convert_Some p parent_def mkdir_parents_exist_ok.simps lookup_def
        empty_world_def is_dir_def)
  from convert_with_input_makes_parent_first [OF h, of "\<lambda>v. ''domain''" "''world.json''"]
  show ?thesis
    using h n l g by (auto simp: p parent_def)
qed

text \<open>
  Claim C10. \<^verbatim>\<open>generate_test_domain\<close> returns the same dictionary in every world (same
  keys, same values, same order of keys and of list elements), never raises, and leaves
  the world as it is.
\<close>

theorem generate_test_domain_independent_of_world:
  "fst (generate_test_domain w1) = fst (generate_test_domain w2)
   \<and> fst (generate_test_domain w1) = Inr test_domain
   \<and> snd (generate_test_domain w1) = w1"
  by (simp add: generate_test_domain_def returnE_def)

end
